theory Spec2Isabelle
  imports Complex_Main "HOL-Library.AList"
begin

section \<open>Python values used by \<^verbatim>\<open>app/Helpers.py\<close>\<close>

text \<open>
  The module is Python 2 (\<^verbatim>\<open>xrange\<close>, \<^verbatim>\<open>iteritems\<close>). Strings are byte strings, modelled
  as \<^typ>\<open>string\<close>; Python integers are \<^typ>\<open>int\<close>. Every exception the modelled code can
  raise is a value of \<open>error\<close>, and a function that can raise returns \<open>error + 'a\<close>.
\<close>

datatype error = IndexError | ValueError | IOError

subsection \<open>String methods\<close>

text \<open>\<^verbatim>\<open>str.lower()\<close> on a byte string: the ASCII capitals are mapped, nothing else.\<close>

definition lower_char :: "char \<Rightarrow> char" where
  "lower_char c =
     (let n = (of_char c :: nat) in if 65 \<le> n \<and> n \<le> 90 then char_of (n + 32) else c)"

definition lower :: "string \<Rightarrow> string" where
  "lower s = map lower_char s"

text \<open>
  \<^verbatim>\<open>s.split(sep)\<close> for a separator \<open>sep\<close>: the string is scanned from the left, each
  occurrence of \<open>sep\<close> ends a piece, and the result always has at least one piece. The
  source only calls it with the literals \<^verbatim>\<open>'|'\<close>, \<^verbatim>\<open>'_'\<close> and \<^verbatim>\<open>' = '\<close>; for the empty
  separator (where Python raises) the model returns the string unsplit.
\<close>

function split_from :: "string \<Rightarrow> string \<Rightarrow> string \<Rightarrow> string list" where
  "split_from sep cur [] = [cur]"
| "split_from sep cur (c # cs) =
     (if sep \<noteq> [] \<and> take (length sep) (c # cs) = sep
      then cur # split_from sep [] (drop (length sep) (c # cs))
      else split_from sep (cur @ [c]) cs)"
  by pat_completeness auto
termination
  by (relation "measure (\<lambda>(sep, cur, s). length s)") auto

definition split :: "string \<Rightarrow> string \<Rightarrow> string list" where
  "split s sep = split_from sep [] s"

text \<open>The whitespace of \<^verbatim>\<open>str.strip()\<close>, \<^verbatim>\<open>str.split()\<close> and \<^verbatim>\<open>int()\<close>.\<close>

definition is_space :: "char \<Rightarrow> bool" where
  "is_space c = (c \<in> set [CHR '' '', CHR 0x09, CHR 0x0A, CHR 0x0B, CHR 0x0C, CHR 0x0D])"

definition strip :: "string \<Rightarrow> string" where
  "strip s = rev (dropWhile is_space (rev (dropWhile is_space s)))"

text \<open>\<^verbatim>\<open>s.split()\<close> without a separator: the maximal runs of non-whitespace characters.\<close>

fun split_ws_from :: "string \<Rightarrow> string \<Rightarrow> string list" where
  "split_ws_from cur [] = (if cur = [] then [] else [cur])"
| "split_ws_from cur (c # cs) =
     (if is_space c then (if cur = [] then [] else [cur]) @ split_ws_from [] cs
      else split_ws_from (cur @ [c]) cs)"

definition split_ws :: "string \<Rightarrow> string list" where
  "split_ws s = split_ws_from [] s"

text \<open>\<^verbatim>\<open>s.startswith(p)\<close>.\<close>

definition startswith :: "string \<Rightarrow> string \<Rightarrow> bool" where
  "startswith s p = (take (length p) s = p)"

subsection \<open>\<^verbatim>\<open>int(s)\<close> and \<^verbatim>\<open>'{}'.format(n)\<close>\<close>

definition is_digit :: "char \<Rightarrow> bool" where
  "is_digit c = (let n = (of_char c :: nat) in 48 \<le> n \<and> n \<le> 57)"

definition digit_val :: "char \<Rightarrow> nat" where
  "digit_val c = of_char c - 48"

definition digits_val :: "string \<Rightarrow> nat" where
  "digits_val ds = foldl (\<lambda>a c. 10 * a + digit_val c) 0 ds"

text \<open>
  \<^verbatim>\<open>int(s)\<close> in base ten: surrounding whitespace is dropped, one sign is allowed, and at
  least one digit must follow and nothing else. \<open>None\<close> stands for the \<^verbatim>\<open>ValueError\<close>.
\<close>

definition unsigned_int :: "string \<Rightarrow> int option" where
  "unsigned_int ds = (if ds \<noteq> [] \<and> list_all is_digit ds then Some (int (digits_val ds)) else None)"

definition py_int :: "string \<Rightarrow> int option" where
  "py_int s =
     (case strip s of
        [] \<Rightarrow> None
      | c # cs \<Rightarrow>
          if c = CHR ''-'' then map_option uminus (unsigned_int cs)
          else if c = CHR ''+'' then unsigned_int cs
          else unsigned_int (c # cs))"

text \<open>The decimal digits of a natural number, as \<^verbatim>\<open>'{}'.format(n)\<close> writes them.\<close>

fun str_nat :: "nat \<Rightarrow> string" where
  "str_nat n = (if n < 10 then [char_of (48 + n)] else str_nat (n div 10) @ [char_of (48 + n mod 10)])"

subsection \<open>Indexing a list\<close>

text \<open>
  \<^verbatim>\<open>xs[i]\<close>: a negative index counts from the end, an index outside
  \<open>-len(xs) .. len(xs) - 1\<close> raises \<^verbatim>\<open>IndexError\<close>.
\<close>

definition py_index :: "'a list \<Rightarrow> int \<Rightarrow> error + 'a" where
  "py_index xs i =
     (if 0 \<le> i \<and> i < int (length xs) then Inr (xs ! nat i)
      else if i < 0 \<and> - int (length xs) \<le> i then Inr (xs ! nat (int (length xs) + i))
      else Inl IndexError)"

subsection \<open>Floats\<close>

text \<open>
  A float as numpy computes with it: a finite value, idealised as a real number, an
  infinity or not-a-number. \<^verbatim>\<open>np.log2\<close> of zero is minus infinity (numpy warns and does
  not raise), and zero times an infinity is not-a-number.
\<close>

datatype npfloat = Finite real | PosInf | NegInf | NaN

definition log2_float :: "nat \<Rightarrow> npfloat" where
  "log2_float n = (if n = 0 then NegInf else Finite (log 2 (real n)))"

definition times_float :: "nat \<Rightarrow> npfloat \<Rightarrow> npfloat" where
  "times_float n x =
     (case x of
        Finite r \<Rightarrow> Finite (real n * r)
      | PosInf \<Rightarrow> if n = 0 then NaN else PosInf
      | NegInf \<Rightarrow> if n = 0 then NaN else NegInf
      | NaN \<Rightarrow> NaN)"

text \<open>Rounding to the nearest integer, a tie going to the even one.\<close>

definition round_half_even :: "real \<Rightarrow> int" where
  "round_half_even x =
     (let f = \<lfloor>x\<rfloor>
      in if x - of_int f < 1 / 2 then f
         else if 1 / 2 < x - of_int f then f + 1
         else if even f then f else f + 1)"

text \<open>
  \<^verbatim>\<open>'{:.2f}'.format(x)\<close>, the \<open>float_formatter\<close> of line 25: the nearest number of
  hundredths, written as the integer part, a point and two digits, behind the sign.
\<close>

definition float_formatter :: "npfloat \<Rightarrow> string" where
  "float_formatter x =
     (case x of
        Finite r \<Rightarrow>
          (let c = nat \<bar>round_half_even (r * 100)\<bar>
           in (if r < 0 then ''-'' else []) @ str_nat (c div 100) @ ''.''
              @ str_nat (c mod 100 div 10) @ str_nat (c mod 10))
      | PosInf \<Rightarrow> ''inf''
      | NegInf \<Rightarrow> ''-inf''
      | NaN \<Rightarrow> ''nan'')"

section \<open>The partition tree and label resolution\<close>

text \<open>
  Modelled from the spec: the module \<^verbatim>\<open>HierarchicalPartitioningTree\<close> is imported by
  \<^verbatim>\<open>Helpers.py\<close> but is not part of the sources at hand. A \<open>PartitionNode\<close> carries its own
  vertex and edge indices and an ordered list of children; a leaf has no children. A
  \<open>PartitionTree\<close> owns the root node.
\<close>

datatype PartitionNode =
  PartitionNode (vertex_indices: "int list") (edge_indices: "int list")
    (children: "PartitionNode list")

datatype PartitionTree = PartitionTree (root: PartitionNode)

text \<open>
  The loop of \<open>traverse_tree\<close>: for each remaining token, the text after the last
  \<^verbatim>\<open>'_'\<close> is converted with \<^verbatim>\<open>int\<close> and used to index the children of the current node.
\<close>

fun walk :: "PartitionNode \<Rightarrow> string list \<Rightarrow> error + PartitionNode" where
  "walk node [] = Inr node"
| "walk node (s # ss) =
     (case py_int (last (split s ''_'')) of
        None \<Rightarrow> Inl ValueError
      | Some idx \<Rightarrow>
          (case py_index (children node) idx of
             Inl e \<Rightarrow> Inl e
           | Inr child \<Rightarrow> walk child ss))"

text \<open>The tokens that are walked: the label split at \<^verbatim>\<open>'|'\<close>, without a leading \<^verbatim>\<open>root\<close>.\<close>

definition sub_ids :: "string \<Rightarrow> string list" where
  "sub_ids fully_qualified_label =
     (let ids = split fully_qualified_label ''|''
      in if lower (hd ids) = ''root'' then tl ids else ids)"

definition traverse_tree :: "PartitionTree \<Rightarrow> string \<Rightarrow> error + PartitionNode" where
  "traverse_tree T fully_qualified_label =
     (if lower fully_qualified_label = ''root'' then Inr (root T)
      else walk (root T) (sub_ids fully_qualified_label))"

section \<open>The graph object\<close>

text \<open>
  Modelled from the spec: the graph is an object of the external graph library. It has
  stable integer identifiers per vertex and per edge, and an active vertex filter and edge
  filter, each a boolean mask over all vertices or edges, or none. A vertex is visible if
  it passes the vertex filter; an edge is visible only if both endpoints and the edge
  itself pass their filters. Vertices are \<open>0 ..< num_v\<close>; edge \<open>i\<close> is \<open>edge_list ! i\<close>,
  a pair of source and target, and edges are iterated in index order.
\<close>

record graph =
  num_v :: nat
  edge_list :: "(nat \<times> nat) list"
  vertex_filter :: "bool list option"
  edge_filter :: "bool list option"

definition passes :: "bool list option \<Rightarrow> nat \<Rightarrow> bool" where
  "passes filt i = (case filt of None \<Rightarrow> True | Some msk \<Rightarrow> i < length msk \<and> msk ! i)"

text \<open>\<^verbatim>\<open>G.vertices()\<close>, \<^verbatim>\<open>G.edges()\<close>, \<^verbatim>\<open>G.num_vertices()\<close> and \<^verbatim>\<open>G.num_edges()\<close>.\<close>

definition G_vertices :: "graph \<Rightarrow> nat list" where
  "G_vertices G = filter (passes (vertex_filter G)) [0..<num_v G]"

definition G_edges :: "graph \<Rightarrow> (nat \<times> nat) list" where
  "G_edges G =
     map snd (filter (\<lambda>(i, e). passes (edge_filter G) i
                          \<and> passes (vertex_filter G) (fst e) \<and> passes (vertex_filter G) (snd e))
               (enumerate 0 (edge_list G)))"

definition G_num_vertices :: "graph \<Rightarrow> nat" where
  "G_num_vertices G = length (G_vertices G)"

definition G_num_edges :: "graph \<Rightarrow> nat" where
  "G_num_edges G = length (G_edges G)"

text \<open>In a graph of the library, both ends of every edge are vertices of the graph.\<close>

definition wf_graph :: "graph \<Rightarrow> bool" where
  "wf_graph G = list_all (\<lambda>e. fst e < num_v G \<and> snd e < num_v G) (edge_list G)"

text \<open>
  \<^verbatim>\<open>a[idx] = True\<close> on a numpy array with a list of integer indices: a negative index
  counts from the end, and an index out of bounds raises \<^verbatim>\<open>IndexError\<close>.
\<close>

definition np_set_true :: "bool list \<Rightarrow> int list \<Rightarrow> error + bool list" where
  "np_set_true a idx =
     (let n = int (length a)
      in if list_all (\<lambda>i. - n \<le> i \<and> i < n) idx
         then Inr (foldl (\<lambda>b i. b[nat (if i < 0 then n + i else i) := True]) a idx)
         else Inl IndexError)"

text \<open>
  The block shared by \<open>kcore_decomposition\<close> (lines 93, 94, 99 to 102) and
  \<open>save_adjacency\<close> (lines 185 to 190): two fresh all-false property maps, set to true
  at the given indices and installed as the filters of the graph. The graph object is
  only changed by the two last calls, after both masks were built.
\<close>

definition set_filters :: "graph \<Rightarrow> int list \<Rightarrow> int list \<Rightarrow> error + graph" where
  "set_filters G vlist elist =
     (case np_set_true (replicate (num_v G) False) vlist of
        Inl e \<Rightarrow> Inl e
      | Inr vp \<Rightarrow>
          (case np_set_true (replicate (length (edge_list G)) False) elist of
             Inl e \<Rightarrow> Inl e
           | Inr ep \<Rightarrow> Inr (G\<lparr>vertex_filter := Some vp, edge_filter := Some ep\<rparr>)))"

section \<open>The environment: graph library, peeling process, operating system\<close>

text \<open>
  What \<^verbatim>\<open>Helpers.py\<close> calls but does not define is a parameter of the model:
  \<^item> \<open>vertex_hist\<close>: \<^verbatim>\<open>gt.vertex_hist(G, 'out', float_count=False)\<close>, the counts and the bins;
  \<^item> \<open>label_components\<close>: \<^verbatim>\<open>gt.label_components(G)\<close>, the array of the component
    labels and the histogram of component sizes;
  \<^item> \<open>gt_kcore_decomposition\<close>: the array of \<^verbatim>\<open>gt.kcore_decomposition(G)\<close>;
  \<^item> \<open>out_neighbours\<close>: \<^verbatim>\<open>v.out_neighbours()\<close> on the filtered graph;
  \<^item> \<open>peeling_process\<close>: what \<^verbatim>\<open>./app/bin/graph_peeling.bin -t core -o core\<close> writes to its
    standard output until it closes it, given all it reads from its standard input;
  \<^item> \<open>broken_pipe_at\<close>: given the lines that are to be written to the process, \<open>Some k\<close>
    if the process has exited by the time line \<open>k\<close> (counted from \<open>0\<close>) is written and
    flushed, so that this write fails; \<open>None\<close>, or a \<open>k\<close> past the last line, if every
    write succeeds;
  \<^item> \<open>dict_order\<close>: the order in which a Python 2 dictionary iterates its keys, given
    the keys in the order they were inserted;
  \<^item> \<open>can_open\<close>: whether \<^verbatim>\<open>open(filename, 'w')\<close> succeeds.
\<close>

record env =
  vertex_hist :: "graph \<Rightarrow> nat list \<times> nat list"
  label_components :: "graph \<Rightarrow> nat list \<times> nat list"
  gt_kcore_decomposition :: "graph \<Rightarrow> nat list"
  out_neighbours :: "graph \<Rightarrow> nat \<Rightarrow> nat list"
  peeling_process :: "string \<Rightarrow> string"
  broken_pipe_at :: "string list \<Rightarrow> nat option"
  dict_order :: "nat list \<Rightarrow> nat list"
  can_open :: "string \<Rightarrow> bool"

section \<open>\<open>kcore_decomposition\<close>: the exact peeling strategy\<close>

text \<open>
  \<^verbatim>\<open>x is []\<close> compares the identity of \<open>x\<close> with a list object created for the comparison:
  it is false for every \<open>x\<close>.
\<close>

definition is_new_list :: "int list \<Rightarrow> bool" where
  "is_new_list x = False"

text \<open>Lines 92 to 102. \<^verbatim>\<open>np.ones_like\<close> gives an array of ones of the same length.\<close>

definition init_filters :: "graph \<Rightarrow> int list \<Rightarrow> int list \<Rightarrow> error + graph" where
  "init_filters G vlist elist =
     (if vlist \<noteq> [] \<or> elist \<noteq> []
      then
        let vlist' = (if is_new_list vlist then replicate (num_v G) 1 else vlist);
            elist' = (if is_new_list vlist then elist
                      else if is_new_list elist then replicate (length (edge_list G)) 1
                      else elist)
        in set_filters G vlist' elist'
      else Inr G)"

text \<open>Lines 106 to 108: one line \<^verbatim>\<open>'{} {}\n'.format(e.source(), e.target())\<close> per visible edge.\<close>

definition edge_lines :: "graph \<Rightarrow> string list" where
  "edge_lines G = map (\<lambda>(s, t). str_nat s @ '' '' @ str_nat t @ ''\<newline>'') (G_edges G)"

definition edge_stream :: "graph \<Rightarrow> string" where
  "edge_stream G = concat (edge_lines G)"

text \<open>
  The loop of lines 106 to 108 writes and flushes line after line. A write to a process
  that has exited raises \<^verbatim>\<open>IOError\<close> (broken pipe), and nothing catches it: if the
  environment breaks the pipe at line \<open>k\<close>, the lines before it were written and the call
  ends there. The result is what the loop returns or raises, and what reached the process.
\<close>

definition write_edges :: "env \<Rightarrow> string list \<Rightarrow> (error + unit) \<times> string" where
  "write_edges E ls =
     (case broken_pipe_at E ls of
        None \<Rightarrow> (Inr (), concat ls)
      | Some k \<Rightarrow> if k < length ls then (Inl IOError, concat (take k ls)) else (Inr (), concat ls))"

text \<open>
  The successive results of \<^verbatim>\<open>readline()\<close> on a stream with the given content: each line
  keeps its newline, a last line without newline is returned as it is, and after that
  \<^verbatim>\<open>readline()\<close> returns the empty string.
\<close>

fun lines_from :: "string \<Rightarrow> string \<Rightarrow> string list" where
  "lines_from cur [] = (if cur = [] then [] else [cur])"
| "lines_from cur (c # cs) =
     (if c = CHR 0x0A then (cur @ [c]) # lines_from [] cs else lines_from (cur @ [c]) cs)"

definition readlines :: "string \<Rightarrow> string list" where
  "readlines out = lines_from [] out"

text \<open>
  The dictionary \<open>peel_partition\<close> is an association list with distinct keys;
  \<^verbatim>\<open>peel_partition[peel] = vertices\<close> is \<^const>\<open>AList.update\<close>.
\<close>

type_synonym peel_dict = "(int \<times> string list) list"

text \<open>
  Lines 118 to 120, on a line that starts with \<^verbatim>\<open>Core\<close>. Unpacking
  \<^verbatim>\<open>line.split(' = ')\<close> into two names raises \<^verbatim>\<open>ValueError\<close> unless there are exactly two
  pieces, and so does \<^verbatim>\<open>int\<close> on a text that is not an integer. The vertices stay strings.
\<close>

definition parse_core_line :: "string \<Rightarrow> error + (int \<times> string list)" where
  "parse_core_line line =
     (case split line '' = '' of
        [peel, vertices] \<Rightarrow>
          (case py_int (last (split peel ''_'')) of
             None \<Rightarrow> Inl ValueError
           | Some k \<Rightarrow> Inr (k, split_ws (strip vertices)))
      | _ \<Rightarrow> Inl ValueError)"

text \<open>Lines 112 to 121, on the lines still to be read.\<close>

fun read_cores :: "peel_dict \<Rightarrow> string list \<Rightarrow> error + peel_dict" where
  "read_cores peel_partition [] = Inr peel_partition"
| "read_cores peel_partition (line # rest) =
     (if line = [] then Inr peel_partition
      else if \<not> startswith line ''Core'' then read_cores peel_partition rest
      else
        (case parse_core_line line of
           Inl e \<Rightarrow> Inl e
         | Inr (peel, vertices) \<Rightarrow>
             read_cores (AList.update peel vertices peel_partition) rest))"

text \<open>
  The outcome of a call: what it returns or raises, the graph object after the call, and
  what was written to the standard input of the process it started (\<open>None\<close> if it started
  none).
\<close>

record kcore_outcome =
  kc_result :: "error + peel_dict"
  kc_graph :: graph
  kc_stdin :: "string option"

definition kcore_decomposition :: "env \<Rightarrow> graph \<Rightarrow> int list \<Rightarrow> int list \<Rightarrow> kcore_outcome" where
  "kcore_decomposition E G vlist elist =
     (case init_filters G vlist elist of
        Inl e \<Rightarrow> \<lparr>kc_result = Inl e, kc_graph = G, kc_stdin = None\<rparr>
      | Inr G' \<Rightarrow>
          (case write_edges E (edge_lines G') of
             (Inl e, written) \<Rightarrow> \<lparr>kc_result = Inl e, kc_graph = G', kc_stdin = Some written\<rparr>
           | (Inr u, written) \<Rightarrow>
               \<lparr>kc_result = read_cores [] (readlines (peeling_process E written)),
                kc_graph = G', kc_stdin = Some written\<rparr>))"

section \<open>\<open>save_adjacency\<close>\<close>

text \<open>
  Lines 197 to 199: the vertex, a space, and the neighbours joined by spaces; a vertex
  without neighbours is followed by the space alone.
\<close>

definition adjacency_line :: "nat \<Rightarrow> nat list \<Rightarrow> string" where
  "adjacency_line v neighbors =
     str_nat v @ '' '' @ butlast (concat (map (\<lambda>u. str_nat u @ '' '') neighbors)) @ ''\<newline>''"

record save_outcome =
  sv_result :: "error + string"
  sv_graph :: graph
  sv_files :: "string \<Rightarrow> string option"

definition save_adjacency ::
  "env \<Rightarrow> (string \<Rightarrow> string option) \<Rightarrow> graph \<Rightarrow> int list \<Rightarrow> int list \<Rightarrow> string \<Rightarrow> save_outcome" where
  "save_adjacency E files G vlist elist filename =
     (case set_filters G vlist elist of
        Inl e \<Rightarrow> \<lparr>sv_result = Inl e, sv_graph = G, sv_files = files\<rparr>
      | Inr G' \<Rightarrow>
          if can_open E filename
          then \<lparr>sv_result = Inr (''Adjacency saved as '' @ filename), sv_graph = G',
                sv_files = files(filename \<mapsto>
                  concat (map (\<lambda>v. adjacency_line v (out_neighbours E G' v)) (G_vertices G')))\<rparr>
          else \<lparr>sv_result = Inl IOError, sv_graph = G', sv_files = files\<rparr>)"

section \<open>\<open>statistics\<close>\<close>

text \<open>The dictionary that \<open>statistics\<close> returns.\<close>

record report =
  num_vertices :: nat
  num_edges :: nat
  num_cc :: nat
  num_singletons :: nat
  vlogv :: string
  deg_bins :: "nat list"
  deg_counts :: "nat list"
  cc_sizes :: "nat list"
  cc_counts :: "nat list"
  peel_bins :: "int list"
  peel_counts :: "nat list"

text \<open>\<^verbatim>\<open>a[idx]\<close> on a numpy array with an array of non-negative indices.\<close>

definition np_take :: "'a list \<Rightarrow> nat list \<Rightarrow> error + 'a list" where
  "np_take a idx =
     (if list_all (\<lambda>i. i < length a) idx then Inr (map (\<lambda>i. a ! i) idx) else Inl IndexError)"

text \<open>
  Lines 27 to 31: the indices at which the vertex filter is set, or all vertices if there
  is no vertex filter.
\<close>

definition v_idx_of :: "graph \<Rightarrow> nat list" where
  "v_idx_of G =
     (case vertex_filter G of
        Some vfilt \<Rightarrow> filter (\<lambda>i. vfilt ! i) [0..<length vfilt]
      | None \<Rightarrow> [0..<G_num_vertices G])"

text \<open>Lines 33 to 36: the bins and counts of the library's histogram at the nonzero counts.\<close>

definition degree_histogram :: "env \<Rightarrow> graph \<Rightarrow> error + (nat list \<times> nat list)" where
  "degree_histogram E G =
     (let (counts, bins) = vertex_hist E G;
          incl_idx = filter (\<lambda>i. counts ! i \<noteq> 0) [0..<length counts]
      in case np_take bins incl_idx of
           Inl e \<Rightarrow> Inl e
         | Inr bins' \<Rightarrow> Inr (bins', map (\<lambda>i. counts ! i) incl_idx))"

text \<open>Lines 38 to 43: component sizes with their multiplicities, and the number of labels.\<close>

definition component_histogram :: "env \<Rightarrow> graph \<Rightarrow> nat list \<times> nat list \<times> nat" where
  "component_histogram E G =
     (let (comp, cc_hist) = label_components E G;
          sizes = sort (remdups cc_hist)
      in (sizes, map (count_list cc_hist) sizes, length (remdups comp)))"

text \<open>Lines 44 to 47. \<^verbatim>\<open>deg_bins[0]\<close> raises \<^verbatim>\<open>IndexError\<close> on the empty list.\<close>

definition singletons :: "nat list \<Rightarrow> nat list \<Rightarrow> error + nat" where
  "singletons bins counts =
     (case py_index bins 0 of
        Inl e \<Rightarrow> Inl e
      | Inr b \<Rightarrow> if b = 0 then py_index counts 0 else Inr 0)"

text \<open>
  Lines 51 to 53, the exact strategy: the sorted keys of the dictionary returned by
  \<open>kcore_decomposition\<close> and, for each, the length of its entry.
\<close>

definition peel_histogram :: "peel_dict \<Rightarrow> int list \<times> nat list" where
  "peel_histogram peel_partition =
     (let bins = sort (map fst peel_partition)
      in (bins,
          concat (map (\<lambda>k. map (\<lambda>(k', vs). length vs)
                               (filter (\<lambda>(k', vs). k' = k) peel_partition)) bins)))"

definition peel_exact :: "env \<Rightarrow> graph \<Rightarrow> (error + (int list \<times> nat list)) \<times> kcore_outcome" where
  "peel_exact E G =
     (let out = kcore_decomposition E G [] []
      in (case kc_result out of
            Inl e \<Rightarrow> Inl e
          | Inr peel_partition \<Rightarrow> Inr (peel_histogram peel_partition), out))"

text \<open>
  Lines 57 to 59, the fast strategy: the library's core numbers at \<open>v_idx\<close> are counted,
  and the items of the counter are unzipped into bins and counts. Unpacking
  \<^verbatim>\<open>zip(*C.items())\<close> into two names raises \<^verbatim>\<open>ValueError\<close> when the counter is empty.
\<close>

definition peel_fast :: "env \<Rightarrow> graph \<Rightarrow> nat list \<Rightarrow> error + (int list \<times> nat list)" where
  "peel_fast E G v_idx =
     (case np_take (gt_kcore_decomposition E G) v_idx of
        Inl e \<Rightarrow> Inl e
      | Inr ks \<Rightarrow>
          (case map (\<lambda>k. (k, count_list ks k)) (dict_order E ks) of
             [] \<Rightarrow> Inl ValueError
           | items \<Rightarrow> Inr (map (\<lambda>(k, c). int k) items, map snd items)))"

text \<open>
  A property map defines neither \<^verbatim>\<open>__nonzero__\<close> nor \<^verbatim>\<open>__len__\<close>, so the test of line 49
  on \<^verbatim>\<open>G.get_vertex_filter()[0]\<close> holds exactly when a filter is set.
\<close>

definition filter_active :: "graph \<Rightarrow> bool" where
  "filter_active G = (vertex_filter G \<noteq> None \<or> edge_filter G \<noteq> None)"

datatype stats_value = NoGraphLoaded | Report report

text \<open>
  The outcome of \<open>statistics\<close>: what it returns or raises, and what it wrote to the
  standard input of a peeling process (\<open>None\<close> if it started none).
\<close>

record stats_outcome =
  st_result :: "error + stats_value"
  st_stdin :: "string option"

definition statistics :: "env \<Rightarrow> graph option \<Rightarrow> stats_outcome" where
  "statistics E Gopt =
     (case Gopt of
        None \<Rightarrow> \<lparr>st_result = Inr NoGraphLoaded, st_stdin = None\<rparr>
      | Some G \<Rightarrow>
          let v_idx = v_idx_of G in
          (case degree_histogram E G of
             Inl e \<Rightarrow> \<lparr>st_result = Inl e, st_stdin = None\<rparr>
           | Inr (bins, counts) \<Rightarrow>
               let (sizes, size_counts, n_cc) = component_histogram E G in
               (case singletons bins counts of
                  Inl e \<Rightarrow> \<lparr>st_result = Inl e, st_stdin = None\<rparr>
                | Inr n_singletons \<Rightarrow>
                    let (peel, G', written) =
                          (if filter_active G
                           then (let (r, out) = peel_exact E G in (r, kc_graph out, kc_stdin out))
                           else (peel_fast E G v_idx, G, None))
                    in (case peel of
                          Inl e \<Rightarrow> \<lparr>st_result = Inl e, st_stdin = written\<rparr>
                        | Inr (p_bins, p_counts) \<Rightarrow>
                            \<lparr>st_result = Inr (Report
                               \<lparr>num_vertices = G_num_vertices G',
                                num_edges = G_num_edges G',
                                num_cc = n_cc,
                                num_singletons = n_singletons,
                                vlogv = float_formatter (times_float (G_num_vertices G')
                                                           (log2_float (G_num_vertices G'))),
                                deg_bins = bins,
                                deg_counts = counts,
                                cc_sizes = sizes,
                                cc_counts = size_counts,
                                peel_bins = p_bins,
                                peel_counts = p_counts\<rparr>),
                             st_stdin = written\<rparr>))))"

section \<open>A reference environment\<close>

text \<open>
  Modelled from the spec: the binary \<^verbatim>\<open>app/bin/graph_peeling.bin\<close> and the graph library
  are not part of the sources at hand. The definitions of this section follow the spec's
  description of them, for an undirected graph, and are only used to evaluate the code on
  concrete graphs; every general theorem below holds for an arbitrary environment. The
  reference process reads all its input: no write to it fails.
\<close>

text \<open>The number of edge ends at a vertex.\<close>

definition degree_in :: "('a \<times> 'a) list \<Rightarrow> 'a \<Rightarrow> nat" where
  "degree_in es v = length (filter (\<lambda>e. fst e = v) es) + length (filter (\<lambda>e. snd e = v) es)"

text \<open>
  The classical degeneracy ordering: repeatedly remove a vertex of minimum degree,
  recording as its core number the largest minimum degree seen so far.
\<close>

function peel :: "'a list \<Rightarrow> ('a \<times> 'a) list \<Rightarrow> nat \<Rightarrow> ('a \<times> nat) list" where
  "peel vs es k =
     (if vs = [] then []
      else (arg_min_list (degree_in es) vs, max k (degree_in es (arg_min_list (degree_in es) vs)))
           # peel (remove1 (arg_min_list (degree_in es) vs) vs)
                  (filter (\<lambda>e. fst e \<noteq> arg_min_list (degree_in es) vs
                             \<and> snd e \<noteq> arg_min_list (degree_in es) vs) es)
                  (max k (degree_in es (arg_min_list (degree_in es) vs))))"
  by pat_completeness auto
termination
  by (relation "measure (\<lambda>(vs, es, k). length vs)")
     (auto simp: length_remove1 arg_min_list_in intro: diff_less)

definition join_spaces :: "string list \<Rightarrow> string" where
  "join_spaces ws = butlast (concat (map (\<lambda>w. w @ '' '') ws))"

text \<open>
  The peeling process: it reads one edge per line, as two identifiers, peels the graph
  these edges form and writes one line \<^verbatim>\<open>Core_<k> = <id> ... <id>\<close> per core number.
\<close>

definition graph_peeling_bin :: "string \<Rightarrow> string" where
  "graph_peeling_bin stdin =
     (let es = concat (map (\<lambda>l. case split_ws l of [s, t] \<Rightarrow> [(s, t)] | _ \<Rightarrow> []) (readlines stdin));
          cores = peel (remdups (concat (map (\<lambda>(s, t). [s, t]) es))) es 0
      in concat (map (\<lambda>k. ''Core_'' @ str_nat k @ '' = ''
                            @ join_spaces (map fst (filter (\<lambda>(v, c). c = k) cores)) @ ''\<newline>'')
                   (sort (remdups (map snd cores)))))"

text \<open>The degree histogram with unit bins \<open>0, 1, ...\<close> up to the largest degree.\<close>

definition gt_vertex_hist :: "graph \<Rightarrow> nat list \<times> nat list" where
  "gt_vertex_hist G =
     (let ds = map (degree_in (G_edges G)) (G_vertices G); m = fold max ds 0
      in (map (count_list ds) [0..<m + 1], [0..<m + 2]))"

text \<open>The core number of every vertex, by the same peeling over all visible vertices.\<close>

definition gt_kcore :: "graph \<Rightarrow> nat list" where
  "gt_kcore G =
     (let cores = peel (G_vertices G) (G_edges G) 0
      in map (\<lambda>v. case map_of cores v of Some k \<Rightarrow> k | None \<Rightarrow> 0) [0..<num_v G])"

text \<open>
  Connected components: every edge merges the labels of its two ends. The labels of
  the visible vertices are numbered in order of appearance; the histogram has the size
  of each component.
\<close>

definition merge_labels :: "nat list \<Rightarrow> nat \<times> nat \<Rightarrow> nat list" where
  "merge_labels l e =
     (let a = l ! fst e; b = l ! snd e in map (\<lambda>x. if x = a \<or> x = b then min a b else x) l)"

definition gt_label_components :: "graph \<Rightarrow> nat list \<times> nat list" where
  "gt_label_components G =
     (let l = foldl merge_labels [0..<num_v G] (G_edges G);
          ls = map (\<lambda>v. l ! v) (G_vertices G);
          reps = rev (remdups (rev ls))
      in (map (\<lambda>v. if v \<in> set (G_vertices G) then length (takeWhile (\<lambda>r. r \<noteq> l ! v) reps) else 0)
              [0..<num_v G],
          map (count_list ls) reps))"

definition gt_out_neighbours :: "graph \<Rightarrow> nat \<Rightarrow> nat list" where
  "gt_out_neighbours G v =
     map snd (filter (\<lambda>e. fst e = v) (G_edges G)) @ map fst (filter (\<lambda>e. snd e = v) (G_edges G))"

text \<open>
  A Python 2 dictionary with at most five keys, all below eight, keeps the key \<open>k\<close> in
  slot \<open>k\<close> of its eight slots and iterates them in ascending order.
\<close>

definition small_dict_order :: "nat list \<Rightarrow> nat list" where
  "small_dict_order ks = sort (remdups ks)"

definition reference_env :: env where
  "reference_env =
     \<lparr>vertex_hist = gt_vertex_hist,
      label_components = gt_label_components,
      gt_kcore_decomposition = gt_kcore,
      out_neighbours = gt_out_neighbours,
      peeling_process = graph_peeling_bin,
      broken_pipe_at = (\<lambda>ls. None),
      dict_order = small_dict_order,
      can_open = (\<lambda>filename. True)\<rparr>"

section \<open>Example inputs\<close>

definition example_tree :: PartitionTree where
  "example_tree =
     PartitionTree (PartitionNode [] []
       [PartitionNode [0, 1] [0] [], PartitionNode [2, 3] [1] []])"

text \<open>Three vertices, one edge between the first two; the third vertex is isolated.\<close>

definition edge_and_isolated :: graph where
  "edge_and_isolated =
     \<lparr>num_v = 3, edge_list = [(0, 1)], vertex_filter = None, edge_filter = None\<rparr>"

text \<open>The same graph with a vertex filter that lets every vertex pass.\<close>

definition edge_and_isolated_filtered :: graph where
  "edge_and_isolated_filtered =
     \<lparr>num_v = 3, edge_list = [(0, 1)], vertex_filter = Some [True, True, True],
      edge_filter = None\<rparr>"

text \<open>The graph without vertices, and a graph whose two vertices are hidden by a filter.\<close>

definition empty_graph :: graph where
  "empty_graph = \<lparr>num_v = 0, edge_list = [], vertex_filter = None, edge_filter = None\<rparr>"

definition all_hidden :: graph where
  "all_hidden =
     \<lparr>num_v = 2, edge_list = [(0, 1)], vertex_filter = Some [False, False],
      edge_filter = Some [True]\<rparr>"

text \<open>Two vertices joined by an edge.\<close>

definition single_edge :: graph where
  "single_edge = \<lparr>num_v = 2, edge_list = [(0, 1)], vertex_filter = None, edge_filter = None\<rparr>"

text \<open>A peeling process that reads its input and exits without writing anything.\<close>

definition silent_env :: env where
  "silent_env = reference_env\<lparr>peeling_process := (\<lambda>stdin. [])\<rparr>"

text \<open>A peeling process that writes a diagnostic line and a result line without core number.\<close>

definition garbled_env :: env where
  "garbled_env =
     reference_env\<lparr>peeling_process := (\<lambda>stdin. ''reading edges\<newline>Core = 0 1\<newline>'')\<rparr>"

text \<open>A peeling process that has exited before the first line is written to it.\<close>

definition dead_env :: env where
  "dead_env = reference_env\<lparr>peeling_process := (\<lambda>stdin. []), broken_pipe_at := (\<lambda>ls. Some 0)\<rparr>"

text \<open>
  The path on three vertices, and the same graph as \<^verbatim>\<open>kcore_decomposition(G, [], [0])\<close>
  leaves it: every vertex is hidden by the vertex filter.
\<close>

definition path3 :: graph where
  "path3 =
     \<lparr>num_v = 3, edge_list = [(0, 1), (1, 2)], vertex_filter = None, edge_filter = None\<rparr>"

definition hidden_path :: graph where
  "hidden_path =
     \<lparr>num_v = 3, edge_list = [(0, 1), (1, 2)], vertex_filter = Some [False, False, False],
      edge_filter = Some [True, False]\<rparr>"

text \<open>The path on five vertices of the spec's end-to-end example.\<close>

definition path5 :: graph where
  "path5 =
     \<lparr>num_v = 5, edge_list = [(0, 1), (1, 2), (2, 3), (3, 4)], vertex_filter = None,
      edge_filter = None\<rparr>"

section \<open>Label resolution fails on a missing child\<close>

lemma walk_append:
  "walk n (pre @ rest) = (case walk n pre of Inl e \<Rightarrow> Inl e | Inr m \<Rightarrow> walk m rest)"
  by (induction pre arbitrary: n) (auto split: option.splits sum.splits)

lemma split_from_absent: "c \<notin> set s \<Longrightarrow> split_from [c] cur s = [cur @ s]"
  by (induction s arbitrary: cur) auto

lemma lower_root_no_bar: "lower s = ''root'' \<Longrightarrow> CHR ''|'' \<notin> set s"
proof
  assume a: "lower s = ''root''" and b: "CHR ''|'' \<in> set s"
  from b have "lower_char (CHR ''|'') \<in> set (lower s)" by (simp add: lower_def)
  with a show False by (simp add: lower_char_def)
qed

lemma sub_ids_root: "lower s = ''root'' \<Longrightarrow> sub_ids s = []"
  using lower_root_no_bar [of s] split_from_absent [of "CHR ''|''" s "[]"]
  by (simp add: sub_ids_def split_def)

text \<open>
  C6. Take a label whose walk reaches a node \<open>n\<close> after the tokens \<open>pre\<close> and continues with
  a token \<open>tok\<close>. If \<open>n\<close> is a leaf (it has no children), or if the integer after the last
  underscore of \<open>tok\<close> exceeds the number of children of \<open>n\<close>, then \<open>traverse_tree\<close> fails:
  it raises \<^verbatim>\<open>IndexError\<close>, the exception by which the code rejects the label (only at a
  leaf, and only if the token does not end in an integer, the exception is the
  \<^verbatim>\<open>ValueError\<close> of \<^verbatim>\<open>int\<close>).
\<close>

theorem traverse_tree_invalid_label:
  assumes "sub_ids label = pre @ tok # post"
      and "walk (root T) pre = Inr n"
      and "children n = [] \<or>
           (\<exists>idx. py_int (last (split tok ''_'')) = Some idx \<and> int (length (children n)) < idx)"
    shows "traverse_tree T label =
             (if py_int (last (split tok ''_'')) = None then Inl ValueError else Inl IndexError)"
proof -
  have nr: "lower label \<noteq> ''root''"
    using assms(1) sub_ids_root [of label] by auto
  have "walk n (tok # post) =
          (if py_int (last (split tok ''_'')) = None then Inl ValueError else Inl IndexError)"
    using assms(3) by (auto simp: py_index_def split: option.splits)
  then show ?thesis
    using nr assms(1,2) by (simp add: traverse_tree_def walk_append)
qed

theorem traverse_tree_invalid_label_witness:
  "traverse_tree example_tree ''root|cluster_5'' = Inl IndexError
   \<and> traverse_tree example_tree ''root|cluster_1|cluster_0'' = Inl IndexError"
proof -
  have s1: "sub_ids ''root|cluster_5'' = [] @ ''cluster_5'' # []"
    by (simp add: sub_ids_def split_def lower_def lower_char_def)
  have s2: "sub_ids ''root|cluster_1|cluster_0'' = [''cluster_1''] @ ''cluster_0'' # []"
    by (simp add: sub_ids_def split_def lower_def lower_char_def)
  have p5: "py_int (last (split ''cluster_5'' ''_'')) = Some 5"
    by (simp add: split_def py_int_def strip_def is_space_def unsigned_int_def is_digit_def
        digits_val_def digit_val_def)
  have p0: "py_int (last (split ''cluster_0'' ''_'')) = Some 0"
    by (simp add: split_def py_int_def strip_def is_space_def unsigned_int_def is_digit_def
        digits_val_def digit_val_def)
  have p1: "py_int (last (split ''cluster_1'' ''_'')) = Some 1"
    by (simp add: split_def py_int_def strip_def is_space_def unsigned_int_def is_digit_def
        digits_val_def digit_val_def)
  have w1: "walk (root example_tree) [] = Inr (root example_tree)" by simp
  have w2: "walk (root example_tree) [''cluster_1''] = Inr (PartitionNode [2, 3] [1] [])"
    by (simp add: p1 example_tree_def py_index_def)
  have c1: "children (root example_tree) = [] \<or>
      (\<exists>idx. py_int (last (split ''cluster_5'' ''_'')) = Some idx
             \<and> int (length (children (root example_tree))) < idx)"
    by (simp add: p5 example_tree_def)
  have c2: "children (PartitionNode [2, 3] [1] []) = [] \<or>
      (\<exists>idx. py_int (last (split ''cluster_0'' ''_'')) = Some idx
             \<and> int (length (children (PartitionNode [2, 3] [1] []))) < idx)"
    by simp
  show ?thesis
    using traverse_tree_invalid_label [OF s1 w1 c1] traverse_tree_invalid_label [OF s2 w2 c2]
    by (simp add: p5 p0)
qed

section \<open>The filters installed by \<open>kcore_decomposition\<close> and \<open>save_adjacency\<close>\<close>

lemma np_set_true_Nil: "np_set_true a [] = Inr a"
  by (simp add: np_set_true_def)

lemma passes_all_false: "\<not> passes (Some (replicate n False)) i"
  by (simp add: passes_def)

lemma G_vertices_hidden: "vertex_filter G = Some (replicate n False) \<Longrightarrow> G_vertices G = []"
  by (simp add: G_vertices_def passes_all_false)

lemma G_edges_hidden_vertices: "vertex_filter G = Some (replicate n False) \<Longrightarrow> G_edges G = []"
  by (simp add: G_edges_def passes_all_false)

lemma G_edges_hidden_edges: "edge_filter G = Some (replicate n False) \<Longrightarrow> G_edges G = []"
  by (simp add: G_edges_def passes_all_false)

lemma edge_lines_no_edges: "G_edges G = [] \<Longrightarrow> edge_lines G = []"
  by (simp add: edge_lines_def)

lemma edge_stream_no_edges: "G_edges G = [] \<Longrightarrow> edge_stream G = []"
  by (simp add: edge_stream_def edge_lines_def)

lemma write_edges_Nil: "write_edges E [] = (Inr (), [])"
  by (simp add: write_edges_def split: option.splits)

lemma write_edges_written:
  "fst (write_edges E ls) = Inr u \<Longrightarrow> snd (write_edges E ls) = concat ls"
  by (auto simp: write_edges_def split: option.splits if_splits)

lemma write_edges_error: "fst (write_edges E ls) = Inl e \<Longrightarrow> e = IOError"
  by (auto simp: write_edges_def split: option.splits if_splits)

lemma write_edges_broken:
  "broken_pipe_at E ls = Some k \<Longrightarrow> k < length ls \<Longrightarrow>
     write_edges E ls = (Inl IOError, concat (take k ls))"
  by (simp add: write_edges_def)

lemma write_edges_reference: "write_edges reference_env ls = (Inr (), concat ls)"
  by (simp add: write_edges_def reference_env_def)

lemma kc_graph_init:
  "init_filters G vlist elist = Inr G' \<Longrightarrow> kc_graph (kcore_decomposition E G vlist elist) = G'"
  by (simp add: kcore_decomposition_def split: prod.splits sum.splits)

lemma kc_stdin_init:
  "init_filters G vlist elist = Inr G' \<Longrightarrow> fst (write_edges E (edge_lines G')) = Inr u \<Longrightarrow>
     kc_stdin (kcore_decomposition E G vlist elist) = Some (edge_stream G')"
  using write_edges_written [of E "edge_lines G'" u]
  by (auto simp: kcore_decomposition_def edge_stream_def split: prod.splits sum.splits)

lemma kc_result_init:
  "init_filters G vlist elist = Inr G' \<Longrightarrow> fst (write_edges E (edge_lines G')) = Inr u \<Longrightarrow>
     kc_result (kcore_decomposition E G vlist elist)
       = read_cores [] (readlines (peeling_process E (edge_stream G')))"
  using write_edges_written [of E "edge_lines G'" u]
  by (auto simp: kcore_decomposition_def edge_stream_def split: prod.splits sum.splits)

lemma kc_result_broken:
  "init_filters G vlist elist = Inr G' \<Longrightarrow> fst (write_edges E (edge_lines G')) = Inl e \<Longrightarrow>
     kc_result (kcore_decomposition E G vlist elist) = Inl IOError"
  using write_edges_error [of E "edge_lines G'" e]
  by (auto simp: kcore_decomposition_def split: prod.splits sum.splits)

lemma kc_no_edges:
  "init_filters G vlist elist = Inr G' \<Longrightarrow> G_edges G' = [] \<Longrightarrow>
     kcore_decomposition E G vlist elist
       = \<lparr>kc_result = read_cores [] (readlines (peeling_process E [])),
          kc_graph = G', kc_stdin = Some []\<rparr>"
  by (simp add: kcore_decomposition_def edge_lines_no_edges write_edges_Nil)

lemma init_filters_lists:
  assumes "vlist \<noteq> [] \<or> elist \<noteq> []"
      and "np_set_true (replicate (num_v G) False) vlist = Inr vp"
      and "np_set_true (replicate (length (edge_list G)) False) elist = Inr ep"
    shows "init_filters G vlist elist = Inr (G\<lparr>vertex_filter := Some vp, edge_filter := Some ep\<rparr>)"
  using assms by (auto simp: init_filters_def is_new_list_def set_filters_def)

text \<open>
  C9. When \<open>kcore_decomposition\<close> is called with exactly one of the two index lists
  non-empty (and indices in range), neither identity test \<^verbatim>\<open>is []\<close> holds, so the mask of the
  empty list stays all false. With an empty vertex list and a non-empty edge list the
  installed vertex filter is all false: the view has no visible vertex and no visible edge,
  and the process is given an empty edge stream. With an empty edge list the installed
  edge filter is all false.
\<close>

theorem kcore_decomposition_one_empty_list:
  assumes "np_set_true (replicate (num_v G) False) vlist = Inr vp"
      and "np_set_true (replicate (length (edge_list G)) False) elist = Inr ep"
      and "vlist = [] \<and> elist \<noteq> [] \<or> vlist \<noteq> [] \<and> elist = []"
    shows "\<not> is_new_list vlist \<and> \<not> is_new_list elist
           \<and> (vlist = [] \<longrightarrow>
                 vertex_filter (kc_graph (kcore_decomposition E G vlist elist))
                   = Some (replicate (num_v G) False)
                 \<and> G_vertices (kc_graph (kcore_decomposition E G vlist elist)) = []
                 \<and> G_edges (kc_graph (kcore_decomposition E G vlist elist)) = []
                 \<and> kc_stdin (kcore_decomposition E G vlist elist) = Some [])
           \<and> (elist = [] \<longrightarrow>
                 edge_filter (kc_graph (kcore_decomposition E G vlist elist))
                   = Some (replicate (length (edge_list G)) False)
                 \<and> G_edges (kc_graph (kcore_decomposition E G vlist elist)) = [])"
proof -
  let ?G' = "G\<lparr>vertex_filter := Some vp, edge_filter := Some ep\<rparr>"
  have init: "init_filters G vlist elist = Inr ?G'"
    using assms by (intro init_filters_lists) auto
  have g: "kc_graph (kcore_decomposition E G vlist elist) = ?G'"
    by (rule kc_graph_init [OF init])
  have i: "G_edges ?G' = [] \<Longrightarrow> kc_stdin (kcore_decomposition E G vlist elist) = Some []"
    using kc_no_edges [OF init, of E] by simp
  have v: "vlist = [] \<Longrightarrow> vp = replicate (num_v G) False"
    using assms(1) by (simp add: np_set_true_Nil)
  have e: "elist = [] \<Longrightarrow> ep = replicate (length (edge_list G)) False"
    using assms(2) by (simp add: np_set_true_Nil)
  have hv: "vlist = [] \<Longrightarrow> G_vertices ?G' = [] \<and> G_edges ?G' = []"
    using v G_vertices_hidden [of ?G' "num_v G"] G_edges_hidden_vertices [of ?G' "num_v G"]
    by simp
  have he: "elist = [] \<Longrightarrow> G_edges ?G' = []"
    using e G_edges_hidden_edges [of ?G' "length (edge_list G)"] by simp
  show ?thesis
    unfolding g using i v e hv he by (auto simp: is_new_list_def)
qed

lemma np_single_edge: "np_set_true (replicate (length (edge_list single_edge)) False) [0] = Inr [True]"
  by (simp add: np_set_true_def single_edge_def)

theorem kcore_decomposition_one_empty_list_witness:
  "vertex_filter (kc_graph (kcore_decomposition reference_env single_edge [] [0]))
     = Some [False, False]
   \<and> edge_filter (kc_graph (kcore_decomposition reference_env single_edge [] [0])) = Some [True]
   \<and> G_vertices (kc_graph (kcore_decomposition reference_env single_edge [] [0])) = []
   \<and> kc_stdin (kcore_decomposition reference_env single_edge [] [0]) = Some []
   \<and> edge_filter (kc_graph (kcore_decomposition reference_env single_edge [0] [])) = Some [False]
   \<and> G_edges (kc_graph (kcore_decomposition reference_env single_edge [0] [])) = []"
proof -
  have a: "np_set_true (replicate (num_v single_edge) False) [] = Inr [False, False]"
    by (simp add: np_set_true_def single_edge_def numeral_2_eq_2)
  have c: "([]::int list) = [] \<and> [0::int] \<noteq> [] \<or> ([]::int list) \<noteq> [] \<and> [0::int] = []"
    by simp
  have g: "kc_graph (kcore_decomposition reference_env single_edge [] [0])
             = single_edge\<lparr>vertex_filter := Some [False, False], edge_filter := Some [True]\<rparr>"
    by (rule kc_graph_init) (simp add: init_filters_def is_new_list_def set_filters_def a np_single_edge)
  have a': "np_set_true (replicate (num_v single_edge) False) [0] = Inr [True, False]"
    by (simp add: np_set_true_def single_edge_def numeral_2_eq_2)
  have b': "np_set_true (replicate (length (edge_list single_edge)) False) [] = Inr [False]"
    by (simp add: np_set_true_def single_edge_def)
  have c': "[0::int] = [] \<and> ([]::int list) \<noteq> [] \<or> [0::int] \<noteq> [] \<and> ([]::int list) = []"
    by simp
  show ?thesis
    using kcore_decomposition_one_empty_list [OF a np_single_edge c, of reference_env]
          kcore_decomposition_one_empty_list [OF a' b' c', of reference_env]
    unfolding g by (simp add: single_edge_def numeral_2_eq_2)
qed

lemma foldl_set_true_length:
  "length (foldl (\<lambda>b i. b[f i := True]) a idx) = length a"
  by (induction idx arbitrary: a) auto

lemma set_true_nth: "j < length a \<Longrightarrow> a[k := True] ! j = (a ! j \<or> j = k)"
  by (cases "k = j") auto

lemma foldl_set_true_nth:
  "j < length a \<Longrightarrow>
     foldl (\<lambda>b i. b[f i := True]) a idx ! j = (a ! j \<or> j \<in> f ` set idx)"
  by (induction idx arbitrary: a) (auto simp: set_true_nth)

lemma np_set_true_mask:
  assumes "np_set_true (replicate n False) idx = Inr m"
    shows "length m = n
           \<and> (\<forall>j<n. m ! j = (j \<in> (\<lambda>i. nat (if i < 0 then int n + i else i)) ` set idx))"
  using assms
  by (auto simp: np_set_true_def Let_def foldl_set_true_length foldl_set_true_nth
      split: if_splits)

text \<open>
  C10. \<open>save_adjacency\<close>, and \<open>kcore_decomposition\<close> when one of its index lists is not
  empty, leave the graph object with the vertex filter and the edge filter set to the
  masks induced by the lists (true exactly at the listed indices, a negative index counting
  from the end): the outcome's graph is the graph with both filters replaced. Nothing
  restores the filters the graph had before.
\<close>

theorem filters_stay_installed:
  assumes "np_set_true (replicate (num_v G) False) vlist = Inr vp"
      and "np_set_true (replicate (length (edge_list G)) False) elist = Inr ep"
    shows "sv_graph (save_adjacency E files G vlist elist filename)
             = G\<lparr>vertex_filter := Some vp, edge_filter := Some ep\<rparr>
           \<and> (vlist \<noteq> [] \<or> elist \<noteq> [] \<longrightarrow>
                kc_graph (kcore_decomposition E G vlist elist)
                  = G\<lparr>vertex_filter := Some vp, edge_filter := Some ep\<rparr>)
           \<and> (\<forall>j<num_v G.
                vp ! j = (j \<in> (\<lambda>i. nat (if i < 0 then int (num_v G) + i else i)) ` set vlist))
           \<and> (\<forall>j<length (edge_list G).
                ep ! j = (j \<in> (\<lambda>i. nat (if i < 0 then int (length (edge_list G)) + i else i))
                                ` set elist))"
proof -
  have s: "sv_graph (save_adjacency E files G vlist elist filename)
             = G\<lparr>vertex_filter := Some vp, edge_filter := Some ep\<rparr>"
    using assms by (simp add: save_adjacency_def set_filters_def)
  have k: "vlist \<noteq> [] \<or> elist \<noteq> [] \<Longrightarrow>
             kc_graph (kcore_decomposition E G vlist elist)
               = G\<lparr>vertex_filter := Some vp, edge_filter := Some ep\<rparr>"
    using assms by (intro kc_graph_init init_filters_lists)
  show ?thesis
    using s k np_set_true_mask [OF assms(1)] np_set_true_mask [OF assms(2)] by blast
qed

theorem filters_stay_installed_witness:
  "vertex_filter (sv_graph (save_adjacency reference_env Map.empty edge_and_isolated [0, 1] [0] ''adj.txt''))
     = Some [True, True, False]
   \<and> edge_filter (kc_graph (kcore_decomposition reference_env edge_and_isolated [0, 1] [0]))
     = Some [True]"
proof -
  have a: "np_set_true (replicate (num_v edge_and_isolated) False) [0, 1] = Inr [True, True, False]"
    by (simp add: np_set_true_def edge_and_isolated_def numeral_3_eq_3)
  have b: "np_set_true (replicate (length (edge_list edge_and_isolated)) False) [0] = Inr [True]"
    by (simp add: np_set_true_def edge_and_isolated_def)
  show ?thesis
    using filters_stay_installed [OF a b, of reference_env Map.empty "''adj.txt''"]
    by simp
qed

section \<open>Reading the output of the peeling process\<close>

lemma lines_from_nonempty: "[] \<notin> set (lines_from cur s)"
  by (induction cur s rule: lines_from.induct) auto

lemma readlines_nonempty: "[] \<notin> set (readlines out)"
  by (simp add: readlines_def lines_from_nonempty)

lemma parse_core_line_error: "parse_core_line l = Inl e \<Longrightarrow> e = ValueError"
  by (auto simp: parse_core_line_def split: list.splits option.splits)

lemma read_cores_bad_line:
  assumes "[] \<notin> set ls" and "l \<in> set ls" and "startswith l ''Core''"
      and "parse_core_line l = Inl e"
    shows "read_cores pp ls = Inl ValueError"
  using assms
proof (induction ls arbitrary: pp)
  case Nil
  then show ?case by simp
next
  case (Cons a ls)
  show ?case
  proof (cases "startswith a ''Core''")
    case False
    with Cons.prems have "l \<in> set ls" by auto
    with Cons False show ?thesis by auto
  next
    case True
    show ?thesis
    proof (cases "parse_core_line a")
      case (Inl e')
      with True Cons.prems(1) show ?thesis
        using parse_core_line_error [of a e'] by auto
    next
      case (Inr kv)
      with Cons.prems have "l \<in> set ls" by auto
      with Cons Inr True show ?thesis by (auto split: prod.splits)
    qed
  qed
qed

lemma read_cores_skip:
  "[] \<notin> set ls \<Longrightarrow>
     read_cores pp ls = read_cores pp (filter (\<lambda>l. startswith l ''Core'') ls)"
  by (induction ls arbitrary: pp) (auto simp: startswith_def split: sum.splits)

text \<open>
  C4, as amended. \<open>kcore_decomposition\<close> raises an error when a write to the process fails
  because the process has exited (\<^verbatim>\<open>IOError\<close>, with the lines before the failing one
  written), and, when every write succeeds, whenever some line of the process's output
  starts with \<^verbatim>\<open>Core\<close> and cannot be parsed (\<^verbatim>\<open>ValueError\<close>: the line does not split at
  \<^verbatim>\<open>' = '\<close> into two pieces, or its prefix does not end in an integer). The lines without
  that prefix are skipped: the result is that of the \<^verbatim>\<open>Core\<close> lines alone. A process that
  took all its input and wrote nothing is not detected: the result is then the empty
  dictionary.
\<close>

theorem kcore_decomposition_output:
  assumes "init_filters G vlist elist = Inr G'"
    shows "(\<forall>k. broken_pipe_at E (edge_lines G') = Some k \<longrightarrow> k < length (edge_lines G') \<longrightarrow>
                kc_result (kcore_decomposition E G vlist elist) = Inl IOError
                \<and> kc_stdin (kcore_decomposition E G vlist elist)
                    = Some (concat (take k (edge_lines G'))))
           \<and> ((\<forall>k. broken_pipe_at E (edge_lines G') = Some k \<longrightarrow> length (edge_lines G') \<le> k) \<longrightarrow>
                ((\<exists>l\<in>set (readlines (peeling_process E (edge_stream G'))).
                     startswith l ''Core'' \<and> isl (parse_core_line l))
                  \<longrightarrow> kc_result (kcore_decomposition E G vlist elist) = Inl ValueError)
                \<and> kc_result (kcore_decomposition E G vlist elist)
                    = read_cores [] (filter (\<lambda>l. startswith l ''Core'')
                                       (readlines (peeling_process E (edge_stream G'))))
                \<and> (peeling_process E (edge_stream G') = []
                     \<longrightarrow> kc_result (kcore_decomposition E G vlist elist) = Inr []))"
proof -
  let ?ls = "readlines (peeling_process E (edge_stream G'))"
  have broken: "\<And>k. broken_pipe_at E (edge_lines G') = Some k \<Longrightarrow> k < length (edge_lines G') \<Longrightarrow>
                  kc_result (kcore_decomposition E G vlist elist) = Inl IOError
                  \<and> kc_stdin (kcore_decomposition E G vlist elist)
                      = Some (concat (take k (edge_lines G')))"
    using assms by (simp add: kcore_decomposition_def write_edges_broken)
  have ok: "(\<forall>k. broken_pipe_at E (edge_lines G') = Some k \<longrightarrow> length (edge_lines G') \<le> k)
              \<Longrightarrow> fst (write_edges E (edge_lines G')) = Inr ()"
    by (auto simp: write_edges_def split: option.splits)
  have a: "(\<exists>l\<in>set ?ls. startswith l ''Core'' \<and> isl (parse_core_line l))
             \<Longrightarrow> read_cores [] ?ls = Inl ValueError"
    using read_cores_bad_line [OF readlines_nonempty] by (auto simp: isl_def)
  have b: "read_cores [] ?ls = read_cores [] (filter (\<lambda>l. startswith l ''Core'') ?ls)"
    by (rule read_cores_skip [OF readlines_nonempty])
  have c: "peeling_process E (edge_stream G') = [] \<Longrightarrow> read_cores [] ?ls = Inr []"
    by (simp add: readlines_def)
  show ?thesis
    using broken kc_result_init [OF assms ok] a b c by metis
qed

lemma init_filters_none: "init_filters G [] [] = Inr G"
  by (simp add: init_filters_def)

lemma edge_lines_single_edge: "edge_lines single_edge = [''0 1\<newline>'']"
  by code_simp

theorem kcore_decomposition_output_witness:
  "kc_result (kcore_decomposition dead_env single_edge [] []) = Inl IOError
   \<and> kc_stdin (kcore_decomposition dead_env single_edge [] []) = Some []
   \<and> kc_result (kcore_decomposition garbled_env single_edge [] []) = Inl ValueError
   \<and> kc_result (kcore_decomposition silent_env single_edge [] []) = Inr []"
proof -
  have d: "\<And>ls. broken_pipe_at dead_env ls = Some 0"
    by (simp add: dead_env_def)
  have n: "\<And>ls. broken_pipe_at garbled_env ls = None"
          "\<And>ls. broken_pipe_at silent_env ls = None"
    by (simp_all add: garbled_env_def silent_env_def reference_env_def)
  have g: "readlines (peeling_process garbled_env (edge_stream single_edge))
             = [''reading edges\<newline>'', ''Core = 0 1\<newline>'']"
    by (simp add: garbled_env_def readlines_def)
  have p: "parse_core_line ''Core = 0 1\<newline>'' = Inl ValueError"
    by (simp add: parse_core_line_def split_def py_int_def strip_def is_space_def
        unsigned_int_def is_digit_def)
  have s: "peeling_process silent_env (edge_stream single_edge) = []"
    by (simp add: silent_env_def)
  have e: "readlines [] = []"
    by (simp add: readlines_def)
  show ?thesis
    using kcore_decomposition_output [OF init_filters_none, of dead_env single_edge]
          kcore_decomposition_output [OF init_filters_none, of garbled_env single_edge]
          kcore_decomposition_output [OF init_filters_none, of silent_env single_edge]
    by (simp add: d n g p s e startswith_def edge_lines_single_edge)
qed

lemma edge_stream_path5: "edge_stream path5 = ''0 1\<newline>1 2\<newline>2 3\<newline>3 4\<newline>''"
  by code_simp

text \<open>
  C4 as stated fails: a process that takes its input and exits without any output, on a
  graph with four edges, makes \<open>kcore_decomposition\<close> return the empty dictionary and no
  error.
\<close>

theorem silent_process_counterexample:
  "edge_stream path5 = ''0 1\<newline>1 2\<newline>2 3\<newline>3 4\<newline>''
   \<and> broken_pipe_at silent_env (edge_lines path5) = None
   \<and> peeling_process silent_env (edge_stream path5) = []
   \<and> kc_result (kcore_decomposition silent_env path5 [] []) = Inr []"
proof -
  have w: "fst (write_edges silent_env (edge_lines path5)) = Inr ()"
    by (simp add: write_edges_def silent_env_def reference_env_def)
  show ?thesis
    using kc_result_init [OF init_filters_none w]
    by (simp add: edge_stream_path5 silent_env_def reference_env_def readlines_def)
qed

section \<open>The two peeling strategies on isolated vertices and on no vertices\<close>

lemma reference_env_simps:
  "vertex_hist reference_env = gt_vertex_hist"
  "label_components reference_env = gt_label_components"
  "gt_kcore_decomposition reference_env = gt_kcore"
  "peeling_process reference_env = graph_peeling_bin"
  "dict_order reference_env = small_dict_order"
  by (simp_all add: reference_env_def)

lemma reference_writes: "fst (write_edges reference_env ls) = Inr ()"
  by (simp add: write_edges_reference)

lemma kcore_decomposition_edges_only:
  "G_edges G = G_edges H \<Longrightarrow>
     kc_result (kcore_decomposition E G [] []) = kc_result (kcore_decomposition E H [] [])"
  by (auto simp: kcore_decomposition_def init_filters_def edge_lines_def
      split: prod.splits sum.splits)

lemma edge_stream_edge_and_isolated_filtered:
  "edge_stream edge_and_isolated_filtered = ''0 1\<newline>''"
  by code_simp

lemma edge_stream_edge_and_isolated: "edge_stream edge_and_isolated = ''0 1\<newline>''"
  by code_simp

lemma peeling_one_edge: "graph_peeling_bin ''0 1\<newline>'' = ''Core_1 = 0 1\<newline>''"
  by code_simp

lemma read_one_core: "read_cores [] (readlines ''Core_1 = 0 1\<newline>'') = Inr [(1, [''0'', ''1''])]"
  by code_simp

text \<open>
  C3. The claim is that the buckets returned by peeling partition the visible vertices.
  On the graph with the edge \<open>0 - 1\<close> and the isolated vertex \<open>2\<close>, all three visible, the
  exact strategy writes the single line \<^verbatim>\<open>0 1\<close> to the process and returns the one
  bucket \<open>1 \<mapsto> ['0', '1']\<close>: the visible vertex \<open>2\<close> is in no bucket. Whatever the
  process computes, the result is the same as on the graph that has the vertices \<open>0\<close> and
  \<open>1\<close> only, since the process is given the visible edges and nothing else.
\<close>

theorem exact_peeling_drops_isolated_vertex:
  "G_vertices edge_and_isolated_filtered = [0, 1, 2]
   \<and> kc_stdin (kcore_decomposition reference_env edge_and_isolated_filtered [] []) = Some ''0 1\<newline>''
   \<and> kc_result (kcore_decomposition reference_env edge_and_isolated_filtered [] [])
       = Inr [(1, [''0'', ''1''])]
   \<and> (\<forall>E. kc_result (kcore_decomposition E edge_and_isolated_filtered [] [])
             = kc_result (kcore_decomposition E single_edge [] []))"
proof -
  have v: "G_vertices edge_and_isolated_filtered = [0, 1, 2]"
    by code_simp
  have e: "G_edges edge_and_isolated_filtered = G_edges single_edge"
    by code_simp
  have r: "kc_stdin (kcore_decomposition reference_env edge_and_isolated_filtered [] [])
             = Some ''0 1\<newline>''
           \<and> kc_result (kcore_decomposition reference_env edge_and_isolated_filtered [] [])
             = Inr [(1, [''0'', ''1''])]"
    by (simp add: kc_stdin_init [OF init_filters_none reference_writes]
        kc_result_init [OF init_filters_none reference_writes] reference_env_simps
        edge_stream_edge_and_isolated_filtered peeling_one_edge read_one_core)
  have a: "\<forall>E. kc_result (kcore_decomposition E edge_and_isolated_filtered [] [])
             = kc_result (kcore_decomposition E single_edge [] [])"
    using kcore_decomposition_edges_only [OF e] by blast
  show ?thesis
    using v r a by blast
qed

text \<open>
  C2. The claim is that the two strategies agree on every graph without filter. On the
  same graph, unfiltered, the exact strategy gives the histogram \<open>{1: 2}\<close> and the fast
  strategy \<open>{0: 1, 1: 2}\<close>: the isolated vertex is counted by the fast strategy only.
\<close>

theorem exact_and_fast_differ:
  "vertex_filter edge_and_isolated = None \<and> edge_filter edge_and_isolated = None
   \<and> fst (peel_exact reference_env edge_and_isolated) = Inr ([1], [2])
   \<and> peel_fast reference_env edge_and_isolated (v_idx_of edge_and_isolated) = Inr ([0, 1], [1, 2])"
proof -
  have f: "vertex_filter edge_and_isolated = None \<and> edge_filter edge_and_isolated = None"
    by (simp add: edge_and_isolated_def)
  have h: "peel_histogram [(1, [''0'', ''1''])] = ([1], [2])"
    by code_simp
  have e: "fst (peel_exact reference_env edge_and_isolated) = Inr ([1], [2])"
    by (simp add: peel_exact_def Let_def kc_result_init [OF init_filters_none reference_writes]
        reference_env_simps edge_stream_edge_and_isolated peeling_one_edge read_one_core h)
  have p: "peel_fast reference_env edge_and_isolated (v_idx_of edge_and_isolated)
             = Inr ([0, 1], [1, 2])"
    unfolding peel_fast_def reference_env_simps by code_simp
  show ?thesis using f e p by simp
qed

lemma enumerate_snd_mem: "(i, e) \<in> set (enumerate n xs) \<Longrightarrow> e \<in> set xs"
  by (auto simp: enumerate_eq_zip dest: set_zip_rightD)

lemma no_vertices_no_edges:
  assumes "wf_graph G" and "G_num_vertices G = 0"
    shows "G_edges G = []"
proof -
  have hidden: "\<And>v. v < num_v G \<Longrightarrow> \<not> passes (vertex_filter G) v"
    using assms(2) by (auto simp: G_num_vertices_def G_vertices_def filter_empty_conv)
  have "\<And>i e. (i, e) \<in> set (enumerate 0 (edge_list G)) \<Longrightarrow> fst e < num_v G"
    using assms(1) enumerate_snd_mem [of _ _ 0 "edge_list G"]
    by (auto simp: wf_graph_def list_all_iff)
  with hidden show ?thesis
    by (auto simp: G_edges_def filter_empty_conv)
qed

text \<open>
  C5, as amended. On a graph without visible vertices the exact strategy has no special
  case: \<open>kcore_decomposition\<close> starts the peeling process all the same, writes the empty
  edge stream to it, and returns what the output of the process parses to; that is the
  empty dictionary when no line of the output starts with \<^verbatim>\<open>Core\<close>.
\<close>

theorem exact_peeling_without_vertices:
  assumes "wf_graph G" and "G_num_vertices G = 0"
    shows "kcore_decomposition E G [] []
             = \<lparr>kc_result = read_cores [] (readlines (peeling_process E [])),
                kc_graph = G, kc_stdin = Some []\<rparr>
           \<and> ((\<forall>l\<in>set (readlines (peeling_process E [])). \<not> startswith l ''Core'')
                \<longrightarrow> kc_result (kcore_decomposition E G [] []) = Inr [])"
proof -
  have k: "kcore_decomposition E G [] []
             = \<lparr>kc_result = read_cores [] (readlines (peeling_process E [])),
                kc_graph = G, kc_stdin = Some []\<rparr>"
    by (rule kc_no_edges [OF init_filters_none no_vertices_no_edges [OF assms]])
  have "(\<forall>l\<in>set (readlines (peeling_process E [])). \<not> startswith l ''Core'')
          \<Longrightarrow> read_cores [] (readlines (peeling_process E [])) = Inr []"
    using read_cores_skip [OF readlines_nonempty, of "[]" "peeling_process E []"]
    by (simp add: filter_False)
  with k show ?thesis by simp
qed

theorem exact_peeling_without_vertices_witness:
  "kcore_decomposition reference_env all_hidden [] []
     = \<lparr>kc_result = Inr [], kc_graph = all_hidden, kc_stdin = Some []\<rparr>"
proof -
  have w: "wf_graph all_hidden" by code_simp
  have n: "G_num_vertices all_hidden = 0" by code_simp
  have p: "readlines (peeling_process reference_env []) = []"
    unfolding reference_env_simps by code_simp
  show ?thesis
    using exact_peeling_without_vertices [OF w n, of reference_env] by (simp add: p)
qed

lemma gt_kcore_empty: "gt_kcore empty_graph = []"
  by code_simp

text \<open>
  C5 as stated fails on the graph without vertices: the fast strategy raises
  \<^verbatim>\<open>ValueError\<close> when it unpacks the items of the empty counter, and the exact strategy
  starts the process.
\<close>

theorem no_special_case_counterexample:
  "G_num_vertices empty_graph = 0
   \<and> peel_fast reference_env empty_graph (v_idx_of empty_graph) = Inl ValueError
   \<and> kc_stdin (kcore_decomposition reference_env empty_graph [] []) = Some []"
proof -
  have n: "G_num_vertices empty_graph = 0" by code_simp
  have v: "v_idx_of empty_graph = []" by code_simp
  have d: "small_dict_order [] = []" by code_simp
  have e: "edge_stream empty_graph = []" by code_simp
  have p: "peel_fast reference_env empty_graph (v_idx_of empty_graph) = Inl ValueError"
    by (simp add: peel_fast_def reference_env_simps gt_kcore_empty v d np_take_def)
  show ?thesis
    by (simp add: n p kc_stdin_init [OF init_filters_none reference_writes] e)
qed

section \<open>The report of \<open>statistics\<close>\<close>

lemma kcore_decomposition_plain: "kc_graph (kcore_decomposition E G [] []) = G"
  by (simp add: kc_graph_init init_filters_none)

lemma kc_plain_stdin:
  "kc_stdin (kcore_decomposition E G [] []) = Some (snd (write_edges E (edge_lines G)))"
  by (simp add: kcore_decomposition_def init_filters_none split: prod.splits sum.splits)

lemma kc_plain_result_stdin:
  assumes "kc_result (kcore_decomposition E G [] []) = Inr pp"
    shows "kc_stdin (kcore_decomposition E G [] []) = Some (edge_stream G)"
proof (cases "fst (write_edges E (edge_lines G))")
  case (Inl e)
  from kc_result_broken [OF init_filters_none this] assms show ?thesis by simp
next
  case (Inr u)
  from kc_stdin_init [OF init_filters_none this] show ?thesis .
qed

lemma v_idx_unfiltered: "vertex_filter G = None \<Longrightarrow> v_idx_of G = G_vertices G"
  by (simp add: v_idx_of_def G_num_vertices_def G_vertices_def passes_def)

text \<open>
  The test of line 49, for every graph on which lines 33 to 47 do not raise. With a filter
  set, \<open>statistics\<close> calls \<open>kcore_decomposition\<close> on the graph: what was written to the
  process is what that call wrote, an error of the call is the error of \<open>statistics\<close>, and
  a returned dictionary gives the peel histogram of the report. Without a filter no
  process is started, and the report has what lines 57 to 59 compute.
\<close>

lemma statistics_selection:
  assumes "degree_histogram E G = Inr (bins, counts)" and "singletons bins counts = Inr n"
    shows "filter_active G \<Longrightarrow>
             st_stdin (statistics E (Some G)) = Some (snd (write_edges E (edge_lines G)))
             \<and> (case kc_result (kcore_decomposition E G [] []) of
                  Inl e \<Rightarrow> st_result (statistics E (Some G)) = Inl e
                | Inr peel_partition \<Rightarrow>
                    (\<exists>r. st_result (statistics E (Some G)) = Inr (Report r)
                         \<and> (peel_bins r, peel_counts r) = peel_histogram peel_partition))"
      and "\<not> filter_active G \<Longrightarrow>
             st_stdin (statistics E (Some G)) = None
             \<and> (case peel_fast E G (G_vertices G) of
                  Inl e \<Rightarrow> st_result (statistics E (Some G)) = Inl e
                | Inr p \<Rightarrow>
                    (\<exists>r. st_result (statistics E (Some G)) = Inr (Report r)
                         \<and> (peel_bins r, peel_counts r) = p))"
proof -
  show "st_stdin (statistics E (Some G)) = Some (snd (write_edges E (edge_lines G)))
        \<and> (case kc_result (kcore_decomposition E G [] []) of
             Inl e \<Rightarrow> st_result (statistics E (Some G)) = Inl e
           | Inr peel_partition \<Rightarrow>
               (\<exists>r. st_result (statistics E (Some G)) = Inr (Report r)
                    \<and> (peel_bins r, peel_counts r) = peel_histogram peel_partition))"
    if "filter_active G"
    using assms that
    by (auto simp: statistics_def Let_def peel_exact_def case_prod_beta kc_plain_stdin
        split: sum.splits)
  show "st_stdin (statistics E (Some G)) = None
        \<and> (case peel_fast E G (G_vertices G) of
             Inl e \<Rightarrow> st_result (statistics E (Some G)) = Inl e
           | Inr p \<Rightarrow>
               (\<exists>r. st_result (statistics E (Some G)) = Inr (Report r)
                    \<and> (peel_bins r, peel_counts r) = p))"
    if f: "\<not> filter_active G"
  proof -
    from f have "vertex_filter G = None" by (simp add: filter_active_def)
    then have "v_idx_of G = G_vertices G" by (rule v_idx_unfiltered)
    with assms f show ?thesis
      by (auto simp: statistics_def Let_def case_prod_beta split: sum.splits)
  qed
qed

text \<open>
  What the two strategies return. The fast one has one bin per key of the counter of
  the library's core numbers at the visible vertices, with the number of these vertices
  that have this core number.
\<close>

lemma peel_fast_groups:
  assumes "peel_fast E G vs = Inr (p_bins, p_counts)"
    shows "list_all (\<lambda>v. v < length (gt_kcore_decomposition E G)) vs
           \<and> p_bins = map int (dict_order E (map (\<lambda>v. gt_kcore_decomposition E G ! v) vs))
           \<and> p_counts = map (\<lambda>k. length (filter (\<lambda>v. gt_kcore_decomposition E G ! v = k) vs))
                            (dict_order E (map (\<lambda>v. gt_kcore_decomposition E G ! v) vs))
           \<and> p_bins \<noteq> []"
proof -
  have c: "count_list (map f xs) k = length (filter (\<lambda>x. f x = k) xs)" for f :: "nat \<Rightarrow> nat" and xs k
    by (induction xs) auto
  from assms show ?thesis
    by (auto simp: peel_fast_def np_take_def c comp_def case_prod_beta
        split: if_splits list.splits)
qed

text \<open>
  The exact one has the keys of the dictionary in ascending order, each with the number
  of identifiers of its entry.
\<close>

lemma filter_key_distinct:
  "distinct (map fst pp) \<Longrightarrow> (k, vs) \<in> set pp \<Longrightarrow> filter (\<lambda>(k', vs'). k' = k) pp = [(k, vs)]"
proof (induction pp)
  case Nil
  then show ?case by simp
next
  case (Cons a pp)
  show ?case
  proof (cases "fst a = k")
    case True
    with Cons.prems have "a = (k, vs)" by (auto simp: image_iff)
    moreover from Cons.prems True have "filter (\<lambda>(k', vs'). k' = k) pp = []"
      by (auto simp: filter_empty_conv image_iff)
    ultimately show ?thesis by simp
  next
    case False
    with Cons show ?thesis by (auto simp: case_prod_beta)
  qed
qed

lemma peel_histogram_counts:
  assumes "distinct (map fst pp)"
    shows "fst (peel_histogram pp) = sort (map fst pp)"
      and "snd (peel_histogram pp) = map (\<lambda>k. length (the (map_of pp k))) (sort (map fst pp))"
proof -
  show "fst (peel_histogram pp) = sort (map fst pp)" by (simp add: peel_histogram_def Let_def)
  have "map (\<lambda>(k', vs). length vs) (filter (\<lambda>(k', vs). k' = k) pp) = [length (the (map_of pp k))]"
    if "k \<in> set (sort (map fst pp))" for k
  proof -
    from that obtain vs where m: "(k, vs) \<in> set pp" by auto
    with assms have "map_of pp k = Some vs" by simp
    with filter_key_distinct [OF assms m] show ?thesis by simp
  qed
  then have e: "map (\<lambda>k. map (\<lambda>(k', vs). length vs) (filter (\<lambda>(k', vs). k' = k) pp))
                  (sort (map fst pp))
                = map (\<lambda>k. [length (the (map_of pp k))]) (sort (map fst pp))"
    by (intro map_cong) auto
  have "snd (peel_histogram pp)
          = concat (map (\<lambda>k. map (\<lambda>(k', vs). length vs) (filter (\<lambda>(k', vs). k' = k) pp))
                     (sort (map fst pp)))"
    by (simp add: peel_histogram_def Let_def)
  also have "\<dots> = concat (map (\<lambda>k. [length (the (map_of pp k))]) (sort (map fst pp)))"
    by (simp only: e)
  also have "\<dots> = map (\<lambda>k. length (the (map_of pp k))) (sort (map fst pp))"
    by (rule concat_map_singleton)
  finally show "snd (peel_histogram pp)
                  = map (\<lambda>k. length (the (map_of pp k))) (sort (map fst pp))" .
qed

lemma statistics_Report:
  assumes "st_result (statistics E (Some G)) = Inr (Report r)"
  shows "\<exists>bins counts n p.
           degree_histogram E G = Inr (bins, counts)
           \<and> singletons bins counts = Inr n
           \<and> (if filter_active G
               then (\<exists>pp. kc_result (kcore_decomposition E G [] []) = Inr pp
                          \<and> p = peel_histogram pp)
                    \<and> st_stdin (statistics E (Some G)) = Some (edge_stream G)
               else peel_fast E G (v_idx_of G) = Inr p
                    \<and> st_stdin (statistics E (Some G)) = None)
           \<and> deg_bins r = bins \<and> deg_counts r = counts \<and> num_singletons r = n
           \<and> peel_bins r = fst p \<and> peel_counts r = snd p
           \<and> num_vertices r = G_num_vertices G
           \<and> vlogv r = float_formatter (times_float (G_num_vertices G)
                                          (log2_float (G_num_vertices G)))"
  using assms
  by (auto simp: statistics_def Let_def peel_exact_def case_prod_beta kcore_decomposition_plain
      kc_plain_result_stdin split: sum.splits if_splits)

lemma statistics_raises_at_singletons:
  assumes "degree_histogram E G = Inr (bins, counts)" and "singletons bins counts = Inl e"
    shows "statistics E (Some G) = \<lparr>st_result = Inl e, st_stdin = None\<rparr>"
  using assms by (simp add: statistics_def Let_def case_prod_beta)

lemma statistics_reports_exact:
  assumes "degree_histogram E G = Inr (bins, counts)" and "singletons bins counts = Inr n"
      and "filter_active G" and "kc_result (kcore_decomposition E G [] []) = Inr pp"
    shows "\<exists>r. st_result (statistics E (Some G)) = Inr (Report r)"
  using assms by (simp add: statistics_def Let_def case_prod_beta peel_exact_def)


lemma histogram_edge_and_isolated_filtered:
  "degree_histogram reference_env edge_and_isolated_filtered = Inr ([0, 1], [1, 2])"
  unfolding degree_histogram_def reference_env_simps by code_simp


lemma histogram_single_edge: "degree_histogram reference_env single_edge = Inr ([1], [2])"
  unfolding degree_histogram_def reference_env_simps by code_simp

lemma histogram_empty_graph: "degree_histogram reference_env empty_graph = Inr ([], [])"
  unfolding degree_histogram_def reference_env_simps by code_simp


lemma singletons_values:
  "singletons [] [] = Inl IndexError"
  "singletons [0, 1] [1, 2] = Inr 1"
  "singletons [1, 2] [2, 3] = Inr 0"
  "singletons [1] [2] = Inr 0"
  by (simp_all add: singletons_def py_index_def)


lemma peel_fast_single_edge:
  "peel_fast reference_env single_edge (v_idx_of single_edge) = Inr ([1], [2])"
  unfolding peel_fast_def reference_env_simps by code_simp


lemma histogram_hidden_path: "degree_histogram reference_env hidden_path = Inr ([], [])"
  unfolding degree_histogram_def reference_env_simps by code_simp

text \<open>
  C1. The claim is made for every loaded graph. Take the path on three vertices after a
  call \<^verbatim>\<open>kcore_decomposition(G, [], [0])\<close>, which leaves a vertex filter that hides every
  vertex. A filter is set, so the exact strategy is due: the call of
  \<open>kcore_decomposition\<close>, which would start the process on the empty stream of visible
  edges and return the empty dictionary. But the degree histogram of this view has no
  nonzero count, and \<open>statistics\<close> raises \<^verbatim>\<open>IndexError\<close> at \<^verbatim>\<open>deg_bins[0]\<close> in line 44,
  before the test of line 49 is reached: neither strategy is used, no process is started
  and no peel histogram is returned.
\<close>

theorem statistics_raises_before_peeling:
  "kc_graph (kcore_decomposition reference_env path3 [] [0]) = hidden_path
   \<and> vertex_filter hidden_path = Some [False, False, False]
   \<and> edge_filter hidden_path = Some [True, False]
   \<and> G_vertices hidden_path = []
   \<and> degree_histogram reference_env hidden_path = Inr ([], [])
   \<and> kcore_decomposition reference_env hidden_path [] []
       = \<lparr>kc_result = Inr [], kc_graph = hidden_path, kc_stdin = Some []\<rparr>
   \<and> statistics reference_env (Some hidden_path)
       = \<lparr>st_result = Inl IndexError, st_stdin = None\<rparr>"
proof -
  have i: "init_filters path3 [] [0] = Inr hidden_path" by code_simp
  have g: "kc_graph (kcore_decomposition reference_env path3 [] [0]) = hidden_path"
    by (rule kc_graph_init [OF i])
  have f: "vertex_filter hidden_path = Some [False, False, False]"
          "edge_filter hidden_path = Some [True, False]"
    by (simp_all add: hidden_path_def)
  have v: "G_vertices hidden_path = []" by code_simp
  have e: "G_edges hidden_path = []" by code_simp
  have p: "readlines (peeling_process reference_env []) = []"
    unfolding reference_env_simps by code_simp
  have k: "kcore_decomposition reference_env hidden_path [] []
             = \<lparr>kc_result = Inr [], kc_graph = hidden_path, kc_stdin = Some []\<rparr>"
    using kc_no_edges [OF init_filters_none e, of reference_env] by (simp add: p)
  have s: "statistics reference_env (Some hidden_path)
             = \<lparr>st_result = Inl IndexError, st_stdin = None\<rparr>"
    by (rule statistics_raises_at_singletons [OF histogram_hidden_path singletons_values(1)])
  from g f v k s show ?thesis by (simp add: histogram_hidden_path)
qed









lemma singletons_Inr_nonempty: "singletons bins counts = Inr n \<Longrightarrow> bins \<noteq> []"
  by (auto simp: singletons_def py_index_def)

lemma degree_histogram_bins:
  assumes "degree_histogram E G = Inr (bins, counts)"
    shows "bins = map (\<lambda>i. snd (vertex_hist E G) ! i)
                    (filter (\<lambda>i. fst (vertex_hist E G) ! i \<noteq> 0) [0..<length (fst (vertex_hist E G))])
           \<and> counts = map (\<lambda>i. fst (vertex_hist E G) ! i)
                    (filter (\<lambda>i. fst (vertex_hist E G) ! i \<noteq> 0) [0..<length (fst (vertex_hist E G))])
           \<and> (\<forall>i<length (fst (vertex_hist E G)).
                 fst (vertex_hist E G) ! i \<noteq> 0 \<longrightarrow> i < length (snd (vertex_hist E G)))"
  using assms
  by (auto simp: degree_histogram_def Let_def case_prod_beta np_take_def list_all_iff
      split: if_splits)


text \<open>
  C8. The claim includes the empty histogram, where \<open>num_singletons\<close> should be \<open>0\<close>. On
  the graph without vertices the library's only bin has count zero, the filtered histogram
  is empty, and \<open>statistics\<close> raises \<^verbatim>\<open>IndexError\<close> at \<^verbatim>\<open>deg_bins[0]\<close> instead of
  reporting \<open>num_singletons = 0\<close>.
\<close>

theorem statistics_empty_histogram:
  "G_num_vertices empty_graph = 0
   \<and> vertex_hist reference_env empty_graph = ([0], [0, 1])
   \<and> degree_histogram reference_env empty_graph = Inr ([], [])
   \<and> st_result (statistics reference_env (Some empty_graph)) = Inl IndexError"
proof -
  have n: "G_num_vertices empty_graph = 0" by code_simp
  have v: "vertex_hist reference_env empty_graph = ([0], [0, 1])"
    unfolding reference_env_simps by code_simp
  show ?thesis
    using statistics_raises_at_singletons [OF histogram_empty_graph singletons_values(1)] n v
    by (simp add: histogram_empty_graph)
qed


text \<open>
  Whenever a report is produced, the rest of the claim holds, provided the bins of the
  library are strictly ascending: the report has exactly the bins with nonzero count, in
  ascending order, and \<open>num_singletons\<close> is the count of the bin \<open>0\<close>, or \<open>0\<close> without such a bin.
\<close>

lemma map_nth_strict_sorted:
  assumes "sorted_wrt (<) (bs :: nat list)" and "\<forall>i\<in>set idx. i < length bs"
      and "sorted_wrt (<) idx"
    shows "sorted_wrt (<) (map (\<lambda>i. bs ! i) idx)"
proof -
  have "sorted_wrt (\<lambda>i j. bs ! i < bs ! j) idx"
    using assms(3)
  proof (rule sorted_wrt_mono_rel [rotated])
    fix i j assume "i \<in> set idx" "j \<in> set idx" "i < j"
    with assms(1,2) show "bs ! i < bs ! j" by (simp add: sorted_wrt_nth_less)
  qed
  then show ?thesis by (simp add: sorted_wrt_map)
qed

lemma zip_map_same: "zip (map f xs) (map g xs) = map (\<lambda>x. (f x, g x)) xs"
  by (induction xs) auto

lemma statistics_degree_histogram:
  assumes "st_result (statistics E (Some G)) = Inr (Report r)"
      and "sorted_wrt (<) (snd (vertex_hist E G))"
    shows "zip (deg_bins r) (deg_counts r)
             = map (\<lambda>i. (snd (vertex_hist E G) ! i, fst (vertex_hist E G) ! i))
                 (filter (\<lambda>i. fst (vertex_hist E G) ! i \<noteq> 0) [0..<length (fst (vertex_hist E G))])
           \<and> sorted_wrt (<) (deg_bins r)
           \<and> num_singletons r
               = (case map_of (zip (deg_bins r) (deg_counts r)) 0 of Some c \<Rightarrow> c | None \<Rightarrow> 0)"
proof -
  let ?cs = "fst (vertex_hist E G)" and ?bs = "snd (vertex_hist E G)"
  let ?idx = "filter (\<lambda>i. ?cs ! i \<noteq> 0) [0..<length ?cs]"
  from statistics_Report [OF assms(1)] obtain bins counts n where
    h: "degree_histogram E G = Inr (bins, counts)" "singletons bins counts = Inr n"
    and r: "deg_bins r = bins" "deg_counts r = counts" "num_singletons r = n"
    by blast
  note d = degree_histogram_bins [OF h(1)]
  have z: "zip bins counts = map (\<lambda>i. (?bs ! i, ?cs ! i)) ?idx"
    using d by (simp add: zip_map_same)
  have "\<forall>i\<in>set ?idx. i < length ?bs" using d by auto
  then have s: "sorted_wrt (<) bins"
    using d map_nth_strict_sorted [OF assms(2), of ?idx] by (simp add: sorted_wrt_filter)
  have ne: "bins \<noteq> []" by (rule singletons_Inr_nonempty [OF h(2)])
  have len: "length counts = length bins" using d by simp
  obtain b bins' c counts' where bc: "bins = b # bins'" "counts = c # counts'"
    using ne len by (cases bins; cases counts) auto
  have n: "n = (if b = 0 then c else 0)"
    using h(2) bc by (auto simp: singletons_def py_index_def split: if_splits)
  have "b \<noteq> 0 \<Longrightarrow> 0 \<notin> set bins" using s bc by auto
  then have "b \<noteq> 0 \<Longrightarrow> map_of (zip bins counts) 0 = None"
    using len by (simp add: map_of_zip_is_None)
  with n bc have "n = (case map_of (zip bins counts) 0 of Some c \<Rightarrow> c | None \<Rightarrow> 0)"
    by auto
  with z s r show ?thesis by simp
qed

end
